theory Spec2Isabelle
  imports Complex_Main "HOL-Library.Product_Lexorder" "HOL-Library.Multiset"
begin

section \<open>Errors\<close>

text \<open>
  The exceptions the Python raises, as values.  \<open>InvalidName\<close>, \<open>InvalidSuit\<close> and
  \<open>Misdeal\<close> are the three \<open>ValueError\<close>s that \<open>card.py\<close> and \<open>hand.py\<close> raise themselves;
  \<open>KeyError\<close> is a failed dictionary subscript; \<open>TypeError\<close> is arithmetic on \<open>None\<close>;
  \<open>EmptySequence\<close> is what \<open>min\<close>, \<open>max\<close> and \<open>random.choice\<close> raise on an empty list.
\<close>

datatype error = InvalidName | InvalidSuit | Misdeal | KeyError | TypeError | EmptySequence

section \<open>card.py\<close>

text \<open>
  \<open>Card.suit_to_symbol\<close>.  The four suit symbols are single non-ASCII code points in the
  source; they are written here as their UTF-8 bytes, which keeps string equality intact.
\<close>

definition suit_to_symbol :: "string \<rightharpoonup> string" where
  "suit_to_symbol = map_of
     [(''Spades'',   [CHR 0xE2, CHR 0x99, CHR 0xA0]),
      (''Diamonds'', [CHR 0xE2, CHR 0x99, CHR 0xA6]),
      (''Clubs'',    [CHR 0xE2, CHR 0x99, CHR 0xA3]),
      (''Hearts'',   [CHR 0xE2, CHR 0x99, CHR 0xA5]),
      (''Joker'',    ''J'')]"

text \<open>
  \<open>Card.card_reference\<close>: every key with its rank, its points and its optional
  \<open>fullname\<close> entry (the \<open>desc\<close> entry is only printed).
\<close>

definition card_reference :: "string \<rightharpoonup> (int \<times> int \<times> string option)" where
  "card_reference = map_of
     [(''Ace'',    (17, 1, None)),
      (''A'',      (17, 1, Some ''Ace'')),
      (''King'',   (16, 0, None)),
      (''K'',      (16, 0, Some ''King'')),
      (''Queen'',  (15, 0, None)),
      (''Q'',      (15, 0, Some ''Queen'')),
      (''Jack'',   (14, 1, None)),
      (''J'',      (14, 1, Some ''Jack'')),
      (''X'',      (13, 1, None)),
      (''Big'',    (12, 1, None)),
      (''B'',      (12, 1, Some ''Big'')),
      (''Little'', (11, 1, None)),
      (''L'',      (11, 1, Some ''Little'')),
      (''1'',      (10, 1, Some ''10'')),
      (''10'',     (10, 1, None)),
      (''9'',      (9, 0, None)),
      (''8'',      (8, 0, None)),
      (''7'',      (7, 0, None)),
      (''6'',      (6, 0, None)),
      (''5'',      (5, 0, None)),
      (''4'',      (4, 0, None)),
      (''3'',      (3, 3, None)),
      (''2'',      (2, 1, None)),
      (''N'',      (0, 0, None)),
      (''_'',      (0, 0, None))]"

record card =
  name :: string
  suit :: string
  short_name :: string
  symbol :: string
  rank :: int
  points :: int
  trump_suit :: "string option"

text \<open>Python's \<open>a in b\<close> on two strings: \<open>a\<close> occurs in \<open>b\<close> as a contiguous run.\<close>

fun str_in :: "string \<Rightarrow> string \<Rightarrow> bool" where
  "str_in xs [] = (xs = [])"
| "str_in xs (y # ys) = (take (length xs) (y # ys) = xs \<or> str_in xs ys)"

text \<open>
  \<open>Card.base_symbol\<close>.  The source tests \<open>name in ('10')\<close>, and \<open>('10')\<close> is the string
  \<open>'10'\<close>, not a tuple, so the test is a substring test.
\<close>

definition base_symbol :: "string \<Rightarrow> string" where
  "base_symbol n = (if str_in n ''10'' then n else take 1 n)"

text \<open>\<open>Card.__init__\<close>: name check, \<open>fullname\<close> substitution, suit check, base attributes.\<close>

definition Card :: "string \<Rightarrow> string \<Rightarrow> error + card" where
  "Card n s =
     (case card_reference n of
        None \<Rightarrow> Inl InvalidName
      | Some (_, _, fn) \<Rightarrow>
          (let nm = (case fn of None \<Rightarrow> n | Some f \<Rightarrow> f) in
           case suit_to_symbol s of
             None \<Rightarrow> Inl InvalidSuit
           | Some sy \<Rightarrow>
               (case card_reference (base_symbol nm) of
                  None \<Rightarrow> Inl KeyError
                | Some (r, _, _) \<Rightarrow>
                    Inr \<lparr>name = nm, suit = s, short_name = base_symbol nm @ sy,
                         symbol = base_symbol nm, rank = r, points = 0,
                         trump_suit = None\<rparr>)))"

text \<open>\<open>Card.__lt__\<close>, \<open>Card.__gt__\<close>, \<open>Card.__eq__\<close>.\<close>

definition card_lt :: "card \<Rightarrow> card \<Rightarrow> bool" where
  "card_lt a b = (rank a < rank b)"

definition card_gt :: "card \<Rightarrow> card \<Rightarrow> bool" where
  "card_gt a b = (rank a > rank b)"

definition card_eq :: "card \<Rightarrow> card \<Rightarrow> bool" where
  "card_eq a b = (short_name a = short_name b)"

text \<open>The literal tuple of colour-partner pairs used by \<open>is_trump\<close> and \<open>get_trump_symbol\<close>.\<close>

definition off_pairs :: "(string \<times> string option) list" where
  "off_pairs = [(''Spades'', Some ''Clubs''), (''Clubs'', Some ''Spades''),
                (''Diamonds'', Some ''Hearts''), (''Hearts'', Some ''Diamonds'')]"

text \<open>\<open>Card.is_trump\<close>; the argument \<open>None\<close> is the omitted \<open>suit\<close>.\<close>

definition is_trump :: "card \<Rightarrow> string option \<Rightarrow> bool" where
  "is_trump c so =
     (let t = (case so of None \<Rightarrow> trump_suit c | Some s \<Rightarrow> Some s) in
      if t = None then False
      else if Some (suit c) = t \<or> suit c = ''Joker'' then True
      else if symbol c = ''X'' then True
      else if base_symbol (name c) = ''J'' \<and> (suit c, t) \<in> set off_pairs then True
      else False)"

definition is_nontrump :: "card \<Rightarrow> string option \<Rightarrow> bool" where
  "is_nontrump c so = (\<not> is_trump c so)"

text \<open>\<open>Card.get_trump_symbol\<close>.\<close>

definition get_trump_symbol :: "card \<Rightarrow> string option \<Rightarrow> string" where
  "get_trump_symbol c so =
     (if is_trump c so then
        (if base_symbol (name c) = ''J'' then
           (if (suit c, so) \<in> set off_pairs then ''X'' else base_symbol (name c))
         else symbol c)
      else ''N'')"

text \<open>
  \<open>Card.set_trump\<close>: the reset, then the recomputation when a suit is given.  Each
  subscript of \<open>card_reference\<close> can raise \<open>KeyError\<close>.
\<close>

definition set_trump :: "card \<Rightarrow> string option \<Rightarrow> error + card" where
  "set_trump c so =
     (case card_reference (base_symbol (name c)) of
        None \<Rightarrow> Inl KeyError
      | Some (r, _, _) \<Rightarrow>
          (let c1 = c\<lparr>symbol := base_symbol (name c), rank := r, points := 0,
                      trump_suit := None\<rparr> in
           case so of
             None \<Rightarrow> Inr c1
           | Some s \<Rightarrow>
               (let sy = get_trump_symbol c1 (Some s) in
                case card_reference sy of
                  None \<Rightarrow> Inl KeyError
                | Some (r2, p2, _) \<Rightarrow>
                    Inr (c1\<lparr>symbol := sy, rank := r2, points := p2,
                            trump_suit := Some s\<rparr>))))"

text \<open>A run of \<open>set_trump\<close> calls on one card, stopping at the first exception.\<close>

fun set_trumps :: "card \<Rightarrow> string option list \<Rightarrow> error + card" where
  "set_trumps c [] = Inr c"
| "set_trumps c (so # sos) =
     (case set_trump c so of Inl e \<Rightarrow> Inl e | Inr c' \<Rightarrow> set_trumps c' sos)"

section \<open>hand.py\<close>

text \<open>
  A \<open>Hand\<close> is its list \<open>cards\<close>.  \<open>Hand.set_trump\<close> calls \<open>set_trump\<close> on each card in
  order; the first exception ends the loop.
\<close>

fun hand_set_trump :: "card list \<Rightarrow> string option \<Rightarrow> error + card list" where
  "hand_set_trump [] so = Inr []"
| "hand_set_trump (c # cs) so =
     (case set_trump c so of
        Inl e \<Rightarrow> Inl e
      | Inr c' \<Rightarrow>
          (case hand_set_trump cs so of
             Inl e \<Rightarrow> Inl e
           | Inr cs' \<Rightarrow> Inr (c' # cs')))"

text \<open>
  \<open>Hand.sort_by_rank\<close>: \<open>list.sort(key=rank, reverse=True)\<close>, a stable sort into descending
  rank (cards of equal rank keep their relative order).
\<close>

definition sort_by_rank :: "card list \<Rightarrow> card list" where
  "sort_by_rank cs = sort_key (\<lambda>c. - rank c) cs"

text \<open>Python's slice \<open>xs[:k]\<close>; a negative \<open>k\<close> counts from the end.\<close>

definition slice_to :: "'a list \<Rightarrow> int \<Rightarrow> 'a list" where
  "slice_to xs k = (if 0 \<le> k then take (nat k) xs else take (nat (int (length xs) + k)) xs)"

text \<open>The overflow step of \<open>discard_non_trumps\<close> (the \<open>if len(self.cards) > 6\<close> block).\<close>

definition overflow_trim :: "card list \<Rightarrow> card list" where
  "overflow_trim cs =
     (if length cs > 6 then
        (let point_cards = filter (\<lambda>c. points c > 0) cs;
             non_point_cards = sort_by_rank (filter (\<lambda>c. points c = 0) cs)
         in point_cards @ slice_to non_point_cards (6 - int (length point_cards)))
      else cs)"

text \<open>The padding step of \<open>discard_non_trumps\<close> (the \<open>if is_bidder and ...\<close> block).\<close>

definition pad_bidder :: "bool \<Rightarrow> card list \<Rightarrow> card list \<Rightarrow> card list" where
  "pad_bidder is_bidder cs non_trump_cards =
     (if is_bidder \<and> length cs < 6
      then cs @ slice_to non_trump_cards (6 - int (length cs))
      else cs)"

text \<open>\<open>Hand.discard_non_trumps\<close>; \<open>Inr\<close> carries the hand's cards after the call.\<close>

definition discard_non_trumps :: "card list \<Rightarrow> string option \<Rightarrow> bool \<Rightarrow> error + card list" where
  "discard_non_trumps cards so is_bidder =
     (case hand_set_trump cards so of
        Inl e \<Rightarrow> Inl e
      | Inr cs \<Rightarrow>
          (let non_trump_cards = (if is_bidder then filter (\<lambda>c. \<not> is_trump c so) cs else []);
               cs1 = filter (\<lambda>c. is_trump c so) cs;
               cs2 = overflow_trim cs1;
               cs3 = pad_bidder is_bidder cs2 non_trump_cards;
               cs4 = sort_by_rank cs3
           in if length cs4 > 6 then Inl Misdeal else Inr cs4))"

section \<open>player.py: bidding\<close>

text \<open>
  The fields of \<open>Player\<close> that bidding and play read or write; \<open>aggressiveness\<close>,
  \<open>restraint\<close> and \<open>bid_strength\<close> are the entries of \<open>self.strategies\<close>.  Python floats
  are taken as real numbers: the arithmetic below is exact and unbounded, where the
  double arithmetic of the source rounds each result to 53 bits and overflows to
  \<open>inf\<close>.  The two agree on the values that the theorems of this theory evaluate;
  nothing is stated here for values where they differ.
\<close>

record player =
  position :: "int option"
  hand :: "card list"
  bid_value :: int
  bidding_suit :: "string option"
  aggressiveness :: real
  restraint :: real
  bid_strength :: "int \<rightharpoonup> real"

text \<open>\<open>default_bid_strength\<close>.\<close>

definition default_bid_strength :: "int \<rightharpoonup> real" where
  "default_bid_strength = map_of
     [(17, 2.5), (16, 1.5), (15, 1.25), (14, 0.75), (13, 0.75), (12, 0.5), (11, 0.5),
      (10, 0.5), (9, 0.25), (8, 0.25), (7, 0.1), (6, 0.1), (5, 0.1), (4, 0.1),
      (3, 1.5), (2, 1), (1, 0), (0, 0)]"

text \<open>\<open>Player.is_partner\<close>: a falsy position (\<open>None\<close> or \<open>0\<close>) is never a partner.\<close>

definition is_partner :: "player \<Rightarrow> int option \<Rightarrow> bool" where
  "is_partner p player_position =
     (case player_position of
        None \<Rightarrow> False
      | Some q \<Rightarrow> if q = 0 then False else position p = Some ((q + 2) mod 4))"

text \<open>
  \<open>round(x, 2)\<close>: to the nearest hundredth, halves to the even neighbour.  The source
  rounds the binary double and returns a double; this is the rounding of the exact real.
\<close>

definition round2 :: "real \<Rightarrow> real" where
  "round2 x =
     (let y = x * 100; f = \<lfloor>y\<rfloor>; d = y - of_int f in
      of_int (if d < 1/2 then f else if d > 1/2 then f + 1
              else if even f then f else f + 1) / 100)"

text \<open>
  \<open>int(x)\<close> on a finite float: truncation towards zero.  (On \<open>inf\<close> and \<open>nan\<close>, which no real
  number stands for, the source raises \<open>OverflowError\<close> and \<open>ValueError\<close>.)
\<close>

definition py_int :: "real \<Rightarrow> int" where
  "py_int x = (if 0 \<le> x then \<lfloor>x\<rfloor> else \<lceil>x\<rceil>)"

text \<open>\<open>[bid_strength[card.rank] for card in self.hand]\<close>.\<close>

fun trump_ranks :: "(int \<rightharpoonup> real) \<Rightarrow> card list \<Rightarrow> error + real list" where
  "trump_ranks tbl [] = Inr []"
| "trump_ranks tbl (c # cs) =
     (case tbl (rank c) of
        None \<Rightarrow> Inl KeyError
      | Some v \<Rightarrow>
          (case trump_ranks tbl cs of
             Inl e \<Rightarrow> Inl e
           | Inr vs \<Rightarrow> Inr (v # vs)))"

text \<open>
  The body of the \<open>for suit in [...]\<close> loop of \<open>default_bid_strategy\<close> up to \<open>suit_bid\<close>:
  the hand with the suit set as trump, and the rounded sum of the strengths of its cards.
\<close>

definition suit_bid :: "(int \<rightharpoonup> real) \<Rightarrow> card list \<Rightarrow> string \<Rightarrow> error + card list \<times> real" where
  "suit_bid tbl h s =
     (case hand_set_trump h (Some s) of
        Inl e \<Rightarrow> Inl e
      | Inr h' \<Rightarrow>
          (case trump_ranks tbl h' of
             Inl e \<Rightarrow> Inl e
           | Inr tr \<Rightarrow> Inr (h', round2 (sum_list tr))))"

text \<open>
  The loop itself.  Its state is the hand, \<open>self.bid_value\<close> (\<open>None\<close> before the first
  suit) and \<open>self.bidding_suit\<close>.  The test \<open>not self.bid_value\<close> holds for \<open>None\<close> and
  for zero.
\<close>

fun eval_suits ::
  "(int \<rightharpoonup> real) \<Rightarrow> string list \<Rightarrow> card list \<times> real option \<times> string option \<Rightarrow>
   error + card list \<times> real option \<times> string option" where
  "eval_suits tbl [] st = Inr st"
| "eval_suits tbl (s # ss) (h, bv, bs) =
     (case suit_bid tbl h s of
        Inl e \<Rightarrow> Inl e
      | Inr (h', sb) \<Rightarrow>
          (if (bv = None \<or> bv = Some 0) \<or> (case bv of Some b \<Rightarrow> sb > b | None \<Rightarrow> False)
           then eval_suits tbl ss (h', Some sb, Some s)
           else eval_suits tbl ss (h', bv, bs)))"

text \<open>
  Lines 339 to 344: aggressiveness, then restraint when the partner holds the bid; \<open>+\<close>
  and \<open>-\<close> are those of the reals.
\<close>

definition personality_value :: "player \<Rightarrow> int option \<Rightarrow> real \<Rightarrow> real" where
  "personality_value p current_bidder b =
     (let v = b + aggressiveness p in
      if is_partner p current_bidder then max 0 (v - restraint p) else v)"

text \<open>Lines 349 to 363: truncation, minimum bid, and the three-way clamp.\<close>

definition final_bid :: "real \<Rightarrow> int \<Rightarrow> int" where
  "final_bid v current_bid =
     (let v1 = py_int v;
          v2 = (if v1 < 5 then 0 else v1)
      in if v2 \<le> current_bid then 0
         else if v2 > current_bid \<and> current_bid > 0 then current_bid + 1
         else if v2 \<ge> 7 then 6
         else v2)"

text \<open>
  \<open>Player.default_bid_strategy\<close>: the returned bid, and the player with \<open>hand\<close>,
  \<open>bid_value\<close> and \<open>bidding_suit\<close> as the call leaves them.
\<close>

definition default_bid_strategy :: "player \<Rightarrow> int \<Rightarrow> int option \<Rightarrow> error + int \<times> player" where
  "default_bid_strategy p current_bid current_bidder =
     (case eval_suits (bid_strength p) [''Spades'', ''Hearts'', ''Clubs'', ''Diamonds'']
             (hand p, None, None) of
        Inl e \<Rightarrow> Inl e
      | Inr (h, bv, bs) \<Rightarrow>
          (case hand_set_trump h None of
             Inl e \<Rightarrow> Inl e
           | Inr h0 \<Rightarrow>
               (case bv of
                  None \<Rightarrow> Inl TypeError
                | Some b \<Rightarrow>
                    (let v = final_bid (personality_value p current_bidder b) current_bid
                     in Inr (v, p\<lparr>hand := h0, bid_value := v, bidding_suit := bs\<rparr>)))))"

section \<open>player.py: card play\<close>

text \<open>
  The keys of \<open>game_state\<close> that the play strategies read.  A key that is absent reads as
  its default: \<open>None\<close> for \<open>'trumps'\<close>, \<open>False\<close> for \<open>'trumps_led'\<close>, the empty list for
  \<open>'trick'\<close> (whose entries are \<open>None\<close> for seats that have not played yet).
\<close>

record game_state =
  trumps :: "string option"
  trumps_led :: bool
  trick :: "card option list"

text \<open>
  \<open>min(xs, key=f)\<close> and \<open>max(xs, key=f)\<close>: the first element with the least (greatest)
  key; \<open>ValueError\<close> on an empty list.
\<close>

fun min_by :: "('a \<Rightarrow> 'k::linorder) \<Rightarrow> 'a list \<Rightarrow> error + 'a" where
  "min_by f [] = Inl EmptySequence"
| "min_by f (x # xs) = Inr (foldl (\<lambda>b a. if f a < f b then a else b) x xs)"

fun max_by :: "('a \<Rightarrow> 'k::linorder) \<Rightarrow> 'a list \<Rightarrow> error + 'a" where
  "max_by f [] = Inl EmptySequence"
| "max_by f (x # xs) = Inr (foldl (\<lambda>b a. if f a > f b then a else b) x xs)"

text \<open>\<open>max(xs, default=d)\<close>.\<close>

definition max_default :: "int \<Rightarrow> int list \<Rightarrow> int" where
  "max_default d xs = (case xs of [] \<Rightarrow> d | y # ys \<Rightarrow> foldl max y ys)"

text \<open>
  \<open>random.choice(xs)\<close>, with the generator's draw \<open>r\<close> passed in: some element of a
  non-empty list, \<open>IndexError\<close> on an empty one.
\<close>

definition random_choice :: "nat \<Rightarrow> 'a list \<Rightarrow> error + 'a" where
  "random_choice r xs = (if xs = [] then Inl EmptySequence else Inr (xs ! (r mod length xs)))"

text \<open>The comprehension \<open>[card for card in self.hand.cards if card.is_trump(suit=...)]\<close>.\<close>

definition trump_cards_of :: "player \<Rightarrow> game_state \<Rightarrow> card list" where
  "trump_cards_of p gs = filter (\<lambda>c. is_trump c (trumps gs)) (hand p)"

text \<open>The highest rank played so far in the trick, \<open>0\<close> when nothing was played.\<close>

definition played_ranks :: "game_state \<Rightarrow> int list" where
  "played_ranks gs =
     concat (map (\<lambda>co. case co of None \<Rightarrow> [] | Some c \<Rightarrow> [rank c]) (trick gs))"

definition highest_played_rank :: "game_state \<Rightarrow> int" where
  "highest_played_rank gs = max_default 0 (played_ranks gs)"

definition play_random :: "nat \<Rightarrow> player \<Rightarrow> game_state \<Rightarrow> error + card" where
  "play_random r p gs =
     (let trump_cards = trump_cards_of p gs in
      if trumps_led gs \<and> trump_cards \<noteq> [] then random_choice r trump_cards
      else random_choice r (hand p))"

definition play_highest :: "player \<Rightarrow> game_state \<Rightarrow> error + card" where
  "play_highest p gs = max_by rank (hand p)"

definition play_lowest :: "player \<Rightarrow> game_state \<Rightarrow> error + card" where
  "play_lowest p gs =
     (if trumps_led gs \<and> trump_cards_of p gs \<noteq> [] then min_by rank (trump_cards_of p gs)
      else min_by rank (hand p))"

definition play_highest_no_point :: "player \<Rightarrow> game_state \<Rightarrow> error + card" where
  "play_highest_no_point p gs =
     (let zero_point_cards = filter (\<lambda>c. points c = 0) (trump_cards_of p gs) in
      if zero_point_cards \<noteq> [] then max_by rank zero_point_cards
      else max_by rank (hand p))"

text \<open>
  The tail shared by the two exits of \<open>play_highest_points\<close> that fall through the
  point-card block: the lowest trump when trumps were led, else the lowest card.
\<close>

definition highest_points_fallback :: "player \<Rightarrow> game_state \<Rightarrow> error + card" where
  "highest_points_fallback p gs =
     (if trumps_led gs \<and> trump_cards_of p gs \<noteq> []
      then min_by (\<lambda>c. (points c, rank c)) (trump_cards_of p gs)
      else min_by rank (hand p))"

definition play_highest_points :: "player \<Rightarrow> game_state \<Rightarrow> error + card" where
  "play_highest_points p gs =
     (let point_cards = filter (\<lambda>c. points c > 0) (hand p) in
      if point_cards \<noteq> [] then
        (case max_by id (map points point_cards) of
           Inl e \<Rightarrow> Inl e
         | Inr max_points \<Rightarrow>
             (let highest_point_cards =
                    filter (\<lambda>c. rank c \<noteq> 17) (filter (\<lambda>c. points c = max_points) point_cards);
                  catchable_cards = filter (\<lambda>c. rank c \<noteq> 2) highest_point_cards
              in if catchable_cards \<noteq> [] then min_by rank catchable_cards
                 else if highest_point_cards \<noteq> [] then min_by rank highest_point_cards
                 else highest_points_fallback p gs))
      else highest_points_fallback p gs)"

definition play_lowest_no_point :: "player \<Rightarrow> game_state \<Rightarrow> error + card" where
  "play_lowest_no_point p gs =
     (let trump_cards = trump_cards_of p gs in
      case filter (\<lambda>c. rank c = 2) trump_cards of
        two # _ \<Rightarrow> Inr two
      | [] \<Rightarrow>
          (let zero_point_trumps = filter (\<lambda>c. points c = 0) trump_cards in
           if zero_point_trumps \<noteq> [] then min_by rank zero_point_trumps
           else if trump_cards \<noteq> [] then
             (let single_point_cards = filter (\<lambda>c. points c = 1) trump_cards in
              if single_point_cards \<noteq> [] then min_by rank single_point_cards
              else min_by points trump_cards)
           else min_by rank (hand p)))"

definition play_just_higher :: "player \<Rightarrow> game_state \<Rightarrow> error + card" where
  "play_just_higher p gs =
     (let just_higher_cards =
            filter (\<lambda>c. rank c > highest_played_rank gs \<and> rank c \<notin> set [2, 3]) (hand p)
      in if just_higher_cards \<noteq> [] then min_by rank just_higher_cards
         else play_lowest_no_point p gs)"

definition play_single_point :: "player \<Rightarrow> game_state \<Rightarrow> error + card" where
  "play_single_point p gs =
     (let single_point_cards =
            filter (\<lambda>c. points c = 1 \<and> rank c \<notin> set [2, 17]) (hand p)
      in if single_point_cards \<noteq> [] then min_by rank single_point_cards
         else
           (case filter (\<lambda>c. rank c = 2) (hand p) of
              two # _ \<Rightarrow> Inr two
            | [] \<Rightarrow>
                (let trump_cards = trump_cards_of p gs;
                     no_point_cards = filter (\<lambda>c. points c = 0) trump_cards
                 in if trumps_led gs \<and> no_point_cards \<noteq> [] then min_by rank no_point_cards
                    else if trumps_led gs \<and> trump_cards \<noteq> [] then min_by rank trump_cards
                    else min_by rank (hand p))))"

definition play_off :: "player \<Rightarrow> game_state \<Rightarrow> error + card" where
  "play_off p gs =
     (let non_trump_cards = filter (\<lambda>c. rank c < 2) (hand p) in
      case (if trumps_led gs then [] else non_trump_cards) of
        off # _ \<Rightarrow> Inr off
      | [] \<Rightarrow>
          (case filter (\<lambda>c. rank c = 2) (hand p) of
             two # _ \<Rightarrow> Inr two
           | [] \<Rightarrow>
               (let lowest_no_point_cards = filter (\<lambda>c. points c = 0) (hand p) in
                if lowest_no_point_cards \<noteq> [] then min_by rank lowest_no_point_cards
                else
                  (let single_point_cards = filter (\<lambda>c. points c = 1) (hand p) in
                   if single_point_cards \<noteq> [] then min_by rank single_point_cards
                   else min_by rank (hand p)))))"

definition play_save_point :: "player \<Rightarrow> game_state \<Rightarrow> error + card" where
  "play_save_point p gs =
     (let single_point_cards =
            filter (\<lambda>c. points c = 1 \<and> rank c \<notin> set [2, 17] \<and> rank c > highest_played_rank gs)
              (hand p)
      in if single_point_cards \<noteq> [] then min_by rank single_point_cards
         else play_off p gs)"

section \<open>Auxiliary notions and sample data\<close>

text \<open>
  A card is \<open>known\<close> when the base symbol of its name is a key of \<open>card_reference\<close>: the
  one fact about a constructed card that \<open>set_trump\<close> relies on for its first subscript.
\<close>

definition known :: "card \<Rightarrow> bool" where
  "known c = (card_reference (base_symbol (name c)) \<noteq> None)"

text \<open>The cards \<open>Card('Jack', 'Spades')\<close> and \<open>Card('X', 'Hearts')\<close> as constructed.\<close>

definition jack_of_spades :: card where
  "jack_of_spades =
     \<lparr>name = ''Jack'', suit = ''Spades'', short_name = [CHR ''J'', CHR 0xE2, CHR 0x99, CHR 0xA0],
      symbol = ''J'', rank = 14, points = 0, trump_suit = None\<rparr>"

definition x_of_hearts :: card where
  "x_of_hearts =
     \<lparr>name = ''X'', suit = ''Hearts'', short_name = [CHR ''X'', CHR 0xE2, CHR 0x99, CHR 0xA5],
      symbol = ''X'', rank = 13, points = 0, trump_suit = None\<rparr>"

text \<open>Further cards as constructed, for the concrete instances below.\<close>

definition ace_of_spades :: card where
  "ace_of_spades =
     \<lparr>name = ''Ace'', suit = ''Spades'', short_name = [CHR ''A'', CHR 0xE2, CHR 0x99, CHR 0xA0],
      symbol = ''A'', rank = 17, points = 0, trump_suit = None\<rparr>"

definition king_of_spades :: card where
  "king_of_spades =
     \<lparr>name = ''King'', suit = ''Spades'', short_name = [CHR ''K'', CHR 0xE2, CHR 0x99, CHR 0xA0],
      symbol = ''K'', rank = 16, points = 0, trump_suit = None\<rparr>"

definition nine_of_spades :: card where
  "nine_of_spades =
     \<lparr>name = ''9'', suit = ''Spades'', short_name = [CHR ''9'', CHR 0xE2, CHR 0x99, CHR 0xA0],
      symbol = ''9'', rank = 9, points = 0, trump_suit = None\<rparr>"

definition four_of_spades :: card where
  "four_of_spades =
     \<lparr>name = ''4'', suit = ''Spades'', short_name = [CHR ''4'', CHR 0xE2, CHR 0x99, CHR 0xA0],
      symbol = ''4'', rank = 4, points = 0, trump_suit = None\<rparr>"

definition three_of_spades :: card where
  "three_of_spades =
     \<lparr>name = ''3'', suit = ''Spades'', short_name = [CHR ''3'', CHR 0xE2, CHR 0x99, CHR 0xA0],
      symbol = ''3'', rank = 3, points = 0, trump_suit = None\<rparr>"

definition two_of_spades :: card where
  "two_of_spades =
     \<lparr>name = ''2'', suit = ''Spades'', short_name = [CHR ''2'', CHR 0xE2, CHR 0x99, CHR 0xA0],
      symbol = ''2'', rank = 2, points = 0, trump_suit = None\<rparr>"

definition jack_of_clubs :: card where
  "jack_of_clubs =
     \<lparr>name = ''Jack'', suit = ''Clubs'', short_name = [CHR ''J'', CHR 0xE2, CHR 0x99, CHR 0xA3],
      symbol = ''J'', rank = 14, points = 0, trump_suit = None\<rparr>"

definition king_of_hearts :: card where
  "king_of_hearts =
     \<lparr>name = ''King'', suit = ''Hearts'', short_name = [CHR ''K'', CHR 0xE2, CHR 0x99, CHR 0xA5],
      symbol = ''K'', rank = 16, points = 0, trump_suit = None\<rparr>"

definition four_of_hearts :: card where
  "four_of_hearts =
     \<lparr>name = ''4'', suit = ''Hearts'', short_name = [CHR ''4'', CHR 0xE2, CHR 0x99, CHR 0xA5],
      symbol = ''4'', rank = 4, points = 0, trump_suit = None\<rparr>"

definition big_joker :: card where
  "big_joker =
     \<lparr>name = ''Big'', suit = ''Joker'', short_name = [CHR ''B'', CHR ''J''],
      symbol = ''B'', rank = 12, points = 0, trump_suit = None\<rparr>"

definition little_joker :: card where
  "little_joker =
     \<lparr>name = ''Little'', suit = ''Joker'', short_name = [CHR ''L'', CHR ''J''],
      symbol = ''L'', rank = 11, points = 0, trump_suit = None\<rparr>"

text \<open>A nine-card hand: four point trumps, three pointless trumps and two off cards under Spades.\<close>

definition sample_hand :: "card list" where
  "sample_hand =
     [four_of_hearts, nine_of_spades, ace_of_spades, jack_of_clubs, four_of_spades,
      king_of_hearts, three_of_spades, king_of_spades, jack_of_spades]"

text \<open>The same nine cards after \<open>set_trump('Spades')\<close>.\<close>

definition sample_hand_spades :: "card list" where
  "sample_hand_spades =
     [four_of_hearts\<lparr>symbol := ''N'', rank := 0, trump_suit := Some ''Spades''\<rparr>,
      nine_of_spades\<lparr>trump_suit := Some ''Spades''\<rparr>,
      ace_of_spades\<lparr>points := 1, trump_suit := Some ''Spades''\<rparr>,
      jack_of_clubs\<lparr>symbol := ''X'', rank := 13, points := 1, trump_suit := Some ''Spades''\<rparr>,
      four_of_spades\<lparr>trump_suit := Some ''Spades''\<rparr>,
      king_of_hearts\<lparr>symbol := ''N'', rank := 0, trump_suit := Some ''Spades''\<rparr>,
      three_of_spades\<lparr>points := 3, trump_suit := Some ''Spades''\<rparr>,
      king_of_spades\<lparr>trump_suit := Some ''Spades''\<rparr>,
      jack_of_spades\<lparr>points := 1, trump_suit := Some ''Spades''\<rparr>]"

text \<open>Seven cards that are all point trumps under Spades.\<close>

definition misdeal_hand :: "card list" where
  "misdeal_hand =
     [ace_of_spades, jack_of_spades, jack_of_clubs, big_joker, little_joker,
      three_of_spades, two_of_spades]"

definition misdeal_hand_spades :: "card list" where
  "misdeal_hand_spades =
     [ace_of_spades\<lparr>points := 1, trump_suit := Some ''Spades''\<rparr>,
      jack_of_spades\<lparr>points := 1, trump_suit := Some ''Spades''\<rparr>,
      jack_of_clubs\<lparr>symbol := ''X'', rank := 13, points := 1, trump_suit := Some ''Spades''\<rparr>,
      big_joker\<lparr>points := 1, trump_suit := Some ''Spades''\<rparr>,
      little_joker\<lparr>points := 1, trump_suit := Some ''Spades''\<rparr>,
      three_of_spades\<lparr>points := 3, trump_suit := Some ''Spades''\<rparr>,
      two_of_spades\<lparr>points := 1, trump_suit := Some ''Spades''\<rparr>]"

text \<open>A result that is a card of the given list, and not an exception.\<close>

definition returns_card_of :: "card list \<Rightarrow> error + card \<Rightarrow> bool" where
  "returns_card_of h res = (case res of Inl e \<Rightarrow> False | Inr c \<Rightarrow> c \<in> set h)"

text \<open>The suit that a call of \<open>default_bid_strategy\<close> recorded as \<open>bidding_suit\<close>.\<close>

definition suit_of :: "error + int \<times> player \<Rightarrow> error + string option" where
  "suit_of res = (case res of Inl e \<Rightarrow> Inl e | Inr (v, q) \<Rightarrow> Inr (bidding_suit q))"

text \<open>The rounded strength alone of a result of \<open>suit_bid\<close>.\<close>

definition strength_of :: "error + card list \<times> real \<Rightarrow> error + real" where
  "strength_of res = (case res of Inl e \<Rightarrow> Inl e | Inr (h, v) \<Rightarrow> Inr v)"

text \<open>
  A player as \<open>Player(position=0)\<close> leaves it (empty hand, default strategies), and the
  same player holding the Four of Spades with a strength table of its own.
\<close>

definition new_player :: player where
  "new_player =
     \<lparr>position = Some 0, hand = [], bid_value = 0, bidding_suit = None,
      aggressiveness = 0, restraint = 0, bid_strength = default_bid_strength\<rparr>"

definition tuned_player :: player where
  "tuned_player =
     new_player\<lparr>hand := [four_of_spades],
                bid_strength := default_bid_strength(4 \<mapsto> 0, 0 \<mapsto> - 0.1)\<rparr>"

text \<open>
  A player holding the nine sample cards with Spades set as trump, and a trick led in
  trumps to which the Big Joker was played while one seat has not played yet.
\<close>

definition sample_player :: player where
  "sample_player = new_player\<lparr>hand := sample_hand_spades\<rparr>"

definition sample_state :: game_state where
  "sample_state =
     \<lparr>trumps = Some ''Spades'', trumps_led = True,
      trick = [Some (big_joker\<lparr>points := 1, trump_suit := Some ''Spades''\<rparr>), None]\<rparr>"

section \<open>Properties of the card model\<close>

subsection \<open>Construction and \<open>set_trump\<close>\<close>

lemma card_reference_markers:
  "card_reference ''X'' = Some (13, 1, None)"
  "card_reference ''J'' = Some (14, 1, Some ''Jack'')"
  "card_reference ''N'' = Some (0, 0, None)"
  by (simp_all add: card_reference_def)

lemma Card_known: "Card n s = Inr c \<Longrightarrow> known c"
  by (auto simp: Card_def known_def Let_def split: option.splits prod.splits)

lemma Card_fields:
  "Card n s = Inr c \<Longrightarrow>
     suit c = s \<and> symbol c = base_symbol (name c) \<and> points c = 0 \<and> trump_suit c = None
     \<and> (\<exists>sy. suit_to_symbol s = Some sy \<and> short_name c = base_symbol (name c) @ sy)
     \<and> (\<exists>p f. card_reference (base_symbol (name c)) = Some (rank c, p, f))"
  by (auto simp: Card_def Let_def split: option.splits prod.splits)

lemma set_trump_same_identity:
  "set_trump a so = Inr b \<Longrightarrow> name b = name a \<and> suit b = suit a \<and> short_name b = short_name a"
  by (auto simp: set_trump_def Let_def split: option.splits prod.splits)

lemma set_trump_known: "known c \<Longrightarrow> \<exists>c'. set_trump c so = Inr c'"
  by (auto simp: known_def set_trump_def Let_def get_trump_symbol_def card_reference_markers
      split: option.splits prod.splits)

lemma set_trump_pure:
  "name a = name b \<Longrightarrow> suit a = suit b \<Longrightarrow> short_name a = short_name b \<Longrightarrow>
   set_trump a so = set_trump b so"
  by (cases a; cases b)
     (simp add: set_trump_def Let_def get_trump_symbol_def is_trump_def
        split: option.splits prod.splits)

lemma set_trump_None_Card: "Card n s = Inr c \<Longrightarrow> set_trump c None = Inr c"
  by (auto simp: Card_def set_trump_def Let_def split: option.splits prod.splits)

lemma set_trumps_same_identity:
  "set_trumps a sos = Inr b \<Longrightarrow> name b = name a \<and> suit b = suit a \<and> short_name b = short_name a"
proof (induction sos arbitrary: a)
  case Nil
  then show ?case by simp
next
  case (Cons so sos)
  then show ?case
    by (auto split: sum.splits dest!: set_trump_same_identity)
qed

lemma set_trumps_known: "known a \<Longrightarrow> \<exists>b. set_trumps a sos = Inr b"
proof (induction sos arbitrary: a)
  case Nil
  then show ?case by simp
next
  case (Cons so sos)
  from Cons.prems obtain a' where a': "set_trump a so = Inr a'"
    using set_trump_known by blast
  then have "known a'"
    using Cons.prems set_trump_same_identity[OF a'] by (simp add: known_def)
  then show ?case using Cons.IH a' by simp
qed

lemma jack_of_spades_Card: "Card ''Jack'' ''Spades'' = Inr jack_of_spades"
  by (simp add: Card_def card_reference_def suit_to_symbol_def base_symbol_def jack_of_spades_def
      Let_def)

lemma jack_of_spades_trump_Spades:
  "set_trump jack_of_spades (Some ''Spades'') =
     Inr (jack_of_spades\<lparr>points := 1, trump_suit := Some ''Spades''\<rparr>)"
  by (simp add: set_trump_def get_trump_symbol_def is_trump_def card_reference_def
      base_symbol_def jack_of_spades_def off_pairs_def)

lemma jack_of_spades_trump_Clubs:
  "set_trump jack_of_spades (Some ''Clubs'') =
     Inr (jack_of_spades\<lparr>symbol := ''X'', rank := 13, points := 1, trump_suit := Some ''Clubs''\<rparr>)"
  by (simp add: set_trump_def get_trump_symbol_def is_trump_def card_reference_def
      base_symbol_def jack_of_spades_def off_pairs_def)

text \<open>
  Claim C6.  For a card as constructed and any run of \<open>set_trump\<close> calls on it, with any
  suits or none, every call returns, a following \<open>set_trump(None)\<close> gives back exactly the
  card as constructed (symbol, rank, points \<open>0\<close>, no trump suit), and a following
  \<open>set_trump(s)\<close> gives what it gives on the fresh card: the derived attributes depend on
  the name, the suit and \<open>s\<close> only, not on the calls made before.
\<close>

theorem set_trump_reset:
  assumes "Card n s = Inr c0"
  shows "\<exists>c. set_trumps c0 sos = Inr c \<and> set_trump c None = Inr c0
             \<and> set_trump c so = set_trump c0 so"
proof -
  from assms have "known c0" by (rule Card_known)
  then obtain c where c: "set_trumps c0 sos = Inr c"
    using set_trumps_known by blast
  from set_trumps_same_identity[OF c]
  have same: "name c = name c0" "suit c = suit c0" "short_name c = short_name c0"
    by simp_all
  have "set_trump c so' = set_trump c0 so'" for so'
    using same by (rule set_trump_pure)
  then show ?thesis
    using c set_trump_None_Card[OF assms] by simp
qed

theorem set_trump_reset_witness:
  "Card ''Jack'' ''Spades'' = Inr jack_of_spades \<and>
   (\<exists>c. set_trumps jack_of_spades [Some ''Clubs'', None, Some ''Hearts''] = Inr c \<and>
        set_trump c None = Inr jack_of_spades \<and>
        set_trump c (Some ''Clubs'') = set_trump jack_of_spades (Some ''Clubs''))"
  using set_trump_reset[OF jack_of_spades_Card, of "[Some ''Clubs'', None, Some ''Hearts'']"
      "Some ''Clubs''"] jack_of_spades_Card
  by simp

subsection \<open>Comparison\<close>

lemma suit_symbol_cases:
  "suit_to_symbol s = Some y \<Longrightarrow>
     (s = ''Spades'' \<and> y = [CHR 0xE2, CHR 0x99, CHR 0xA0]) \<or>
     (s = ''Diamonds'' \<and> y = [CHR 0xE2, CHR 0x99, CHR 0xA6]) \<or>
     (s = ''Clubs'' \<and> y = [CHR 0xE2, CHR 0x99, CHR 0xA3]) \<or>
     (s = ''Hearts'' \<and> y = [CHR 0xE2, CHR 0x99, CHR 0xA5]) \<or>
     (s = ''Joker'' \<and> y = ''J'')"
  by (auto simp: suit_to_symbol_def split: if_splits)

lemma suit_symbol_last:
  assumes "suit_to_symbol s1 = Some y1" "suit_to_symbol s2 = Some y2" "last y1 = last y2"
  shows "s1 = s2 \<and> y1 = y2"
  using suit_symbol_cases[OF assms(1)] suit_symbol_cases[OF assms(2)] assms(3)
  by (elim disjE conjE) simp_all

lemma short_name_inj:
  assumes "suit_to_symbol s1 = Some y1" "suit_to_symbol s2 = Some y2" "x1 @ y1 = x2 @ y2"
  shows "s1 = s2 \<and> x1 = x2"
proof -
  have ne: "y1 \<noteq> []" "y2 \<noteq> []"
    using suit_symbol_cases[OF assms(1)] suit_symbol_cases[OF assms(2)] by auto
  have "last (x1 @ y1) = last (x2 @ y2)" using assms(3) by simp
  with ne have "last y1 = last y2" by simp
  from suit_symbol_last[OF assms(1,2) this] assms(3) show ?thesis by simp
qed

text \<open>
  The Jack of Spades under trump Spades (rank 14) and the same card under trump Clubs
  (rank 13) compare equal with \<open>==\<close>, although their current ranks differ: equality does
  not look at the rank.
\<close>

theorem card_eq_ignores_rank:
  "Card ''Jack'' ''Spades'' = Inr jack_of_spades \<and>
   set_trump jack_of_spades (Some ''Spades'') =
     Inr (jack_of_spades\<lparr>points := 1, trump_suit := Some ''Spades''\<rparr>) \<and>
   set_trump jack_of_spades (Some ''Clubs'') =
     Inr (jack_of_spades\<lparr>symbol := ''X'', rank := 13, points := 1, trump_suit := Some ''Clubs''\<rparr>) \<and>
   card_eq (jack_of_spades\<lparr>points := 1, trump_suit := Some ''Spades''\<rparr>)
           (jack_of_spades\<lparr>symbol := ''X'', rank := 13, points := 1, trump_suit := Some ''Clubs''\<rparr>) \<and>
   rank (jack_of_spades\<lparr>points := 1, trump_suit := Some ''Spades''\<rparr>) \<noteq>
   rank (jack_of_spades\<lparr>symbol := ''X'', rank := 13, points := 1, trump_suit := Some ''Clubs''\<rparr>)"
  by (simp add: jack_of_spades_Card jack_of_spades_trump_Spades jack_of_spades_trump_Clubs
      card_eq_def) (simp add: jack_of_spades_def)

text \<open>
  Claim C2, as the code has it.  For two constructed cards in any trump state, \<open>a < b\<close>
  and \<open>a > b\<close> hold exactly when \<open>a.rank < b.rank\<close> and \<open>a.rank > b.rank\<close>, and \<open>a == b\<close>
  holds exactly when the two cards have the same base symbol and the same suit (equal
  short names), whatever their current ranks.
\<close>

theorem card_comparisons:
  assumes "Card n1 s1 = Inr a0" "Card n2 s2 = Inr b0"
      and "set_trumps a0 xs = Inr a" "set_trumps b0 ys = Inr b"
  shows "(card_lt a b \<longleftrightarrow> rank a < rank b) \<and> (card_gt a b \<longleftrightarrow> rank a > rank b) \<and>
         (card_eq a b \<longleftrightarrow> base_symbol (name a) = base_symbol (name b) \<and> suit a = suit b)"
proof -
  from Card_fields[OF assms(1)] obtain y1 where
    a0: "suit a0 = s1" "suit_to_symbol s1 = Some y1" "short_name a0 = base_symbol (name a0) @ y1"
    by blast
  from Card_fields[OF assms(2)] obtain y2 where
    b0: "suit b0 = s2" "suit_to_symbol s2 = Some y2" "short_name b0 = base_symbol (name b0) @ y2"
    by blast
  note ia = set_trumps_same_identity[OF assms(3)]
  note ib = set_trumps_same_identity[OF assms(4)]
  have sa: "short_name a = base_symbol (name a) @ y1" and sua: "suit a = s1"
    using ia a0 by simp_all
  have sb: "short_name b = base_symbol (name b) @ y2" and sub: "suit b = s2"
    using ib b0 by simp_all
  have "card_eq a b \<longleftrightarrow> base_symbol (name a) = base_symbol (name b) \<and> suit a = suit b"
  proof
    assume "card_eq a b"
    then have "base_symbol (name a) @ y1 = base_symbol (name b) @ y2"
      using sa sb by (simp add: card_eq_def)
    from short_name_inj[OF a0(2) b0(2) this] show
      "base_symbol (name a) = base_symbol (name b) \<and> suit a = suit b"
      using sua sub by simp
  next
    assume h: "base_symbol (name a) = base_symbol (name b) \<and> suit a = suit b"
    then have "s1 = s2" using sua sub by simp
    then have "y1 = y2" using a0(2) b0(2) by simp
    then show "card_eq a b" using h sa sb by (simp add: card_eq_def)
  qed
  then show ?thesis by (simp add: card_lt_def card_gt_def)
qed

theorem card_comparisons_witness:
  "Card ''Jack'' ''Spades'' = Inr jack_of_spades \<and>
   set_trumps jack_of_spades [Some ''Spades''] =
     Inr (jack_of_spades\<lparr>points := 1, trump_suit := Some ''Spades''\<rparr>) \<and>
   set_trumps jack_of_spades [Some ''Clubs''] =
     Inr (jack_of_spades\<lparr>symbol := ''X'', rank := 13, points := 1, trump_suit := Some ''Clubs''\<rparr>) \<and>
   card_gt (jack_of_spades\<lparr>points := 1, trump_suit := Some ''Spades''\<rparr>)
           (jack_of_spades\<lparr>symbol := ''X'', rank := 13, points := 1, trump_suit := Some ''Clubs''\<rparr>) \<and>
   card_eq (jack_of_spades\<lparr>points := 1, trump_suit := Some ''Spades''\<rparr>)
           (jack_of_spades\<lparr>symbol := ''X'', rank := 13, points := 1, trump_suit := Some ''Clubs''\<rparr>)"
proof -
  have h1: "set_trumps jack_of_spades [Some ''Spades''] =
     Inr (jack_of_spades\<lparr>points := 1, trump_suit := Some ''Spades''\<rparr>)"
    by (simp add: jack_of_spades_trump_Spades)
  have h2: "set_trumps jack_of_spades [Some ''Clubs''] =
     Inr (jack_of_spades\<lparr>symbol := ''X'', rank := 13, points := 1, trump_suit := Some ''Clubs''\<rparr>)"
    by (simp add: jack_of_spades_trump_Clubs)
  show ?thesis
    using card_comparisons[OF jack_of_spades_Card jack_of_spades_Card h1 h2]
      jack_of_spades_Card h1 h2
    by (simp add: jack_of_spades_def)
qed

subsection \<open>\<open>is_trump\<close>\<close>

lemma Card_is_trump_None: "Card n s = Inr c \<Longrightarrow> \<not> is_trump c None"
  by (auto simp: is_trump_def dest!: Card_fields)

text \<open>
  The card constructed from the name \<open>'X'\<close> (the off-jack marker, a key of
  \<open>card_reference\<close>) with suit Hearts is trump under Spades in its base state, although it
  is not a Spade, not of the Joker suit and not a Jack.
\<close>

theorem off_jack_marker_is_trump:
  "Card ''X'' ''Hearts'' = Inr x_of_hearts \<and> is_trump x_of_hearts (Some ''Spades'') \<and>
   \<not> (suit x_of_hearts = ''Spades'' \<or> suit x_of_hearts = ''Joker'' \<or>
      (base_symbol (name x_of_hearts) = ''J'' \<and>
       (suit x_of_hearts, ''Spades'') \<in> {(''Spades'', ''Clubs''), (''Clubs'', ''Spades''),
                           (''Hearts'', ''Diamonds''), (''Diamonds'', ''Hearts'')}))"
  by (simp add: Card_def card_reference_def suit_to_symbol_def base_symbol_def x_of_hearts_def
      is_trump_def Let_def)

text \<open>
  Claim C7, as the code has it.  For a card in its base state and a queried suit,
  \<open>is_trump(suit)\<close> is true exactly when the card's suit is the queried suit, or its suit
  is Joker, or its symbol is the off-jack marker \<open>'X'\<close>, or it is a Jack whose suit is the
  colour partner of the queried suit under the pairings Spades/Clubs and
  Hearts/Diamonds; and with no suit argument (no trump being set) it is never trump.
\<close>

theorem is_trump_base_state:
  assumes "Card n s = Inr c"
  shows "(is_trump c (Some q) \<longleftrightarrow>
            suit c = q \<or> suit c = ''Joker'' \<or> base_symbol (name c) = ''X'' \<or>
            (base_symbol (name c) = ''J'' \<and>
             (suit c, q) \<in> {(''Spades'', ''Clubs''), (''Clubs'', ''Spades''),
                           (''Hearts'', ''Diamonds''), (''Diamonds'', ''Hearts'')}))
         \<and> \<not> is_trump c None"
proof -
  from Card_fields[OF assms] have sy: "symbol c = base_symbol (name c)" by simp
  have "is_trump c (Some q) \<longleftrightarrow>
            suit c = q \<or> suit c = ''Joker'' \<or> base_symbol (name c) = ''X'' \<or>
            (base_symbol (name c) = ''J'' \<and>
             (suit c, q) \<in> {(''Spades'', ''Clubs''), (''Clubs'', ''Spades''),
                           (''Hearts'', ''Diamonds''), (''Diamonds'', ''Hearts'')})"
    unfolding is_trump_def off_pairs_def using sy by auto
  then show ?thesis using Card_is_trump_None[OF assms] by simp
qed

theorem is_trump_base_state_witness:
  "Card ''Jack'' ''Spades'' = Inr jack_of_spades \<and>
   is_trump jack_of_spades (Some ''Clubs'') \<and> \<not> is_trump jack_of_spades (Some ''Hearts'') \<and>
   \<not> is_trump jack_of_spades None"
  using is_trump_base_state[OF jack_of_spades_Card, of "''Clubs''"]
    is_trump_base_state[OF jack_of_spades_Card, of "''Hearts''"] jack_of_spades_Card
  by (simp add: jack_of_spades_def base_symbol_def)

section \<open>Properties of the discard engine\<close>

subsection \<open>The steps of \<open>discard_non_trumps\<close>\<close>

lemma slice_to_length: "0 \<le> k \<Longrightarrow> length (slice_to xs k) \<le> nat k"
  by (simp add: slice_to_def)

lemma slice_to_take: "\<exists>j. slice_to xs k = take j xs \<and> (0 \<le> k \<longrightarrow> j = nat k)"
  by (auto simp: slice_to_def)

lemma length_sort_by_rank: "length (sort_by_rank cs) = length cs"
  by (simp add: sort_by_rank_def)

lemma mset_sort_by_rank: "mset (sort_by_rank cs) = mset cs"
  by (simp add: sort_by_rank_def)

lemma sorted_sort_by_rank: "sorted (map (\<lambda>c. - rank c) (sort_by_rank cs))"
  by (simp add: sort_by_rank_def)

lemma filter_sort_by_rank: "filter P (sort_by_rank cs) = sort_by_rank (filter P cs)"
  by (simp add: sort_by_rank_def filter_sort)

lemma overflow_trim_short:
  assumes "length (filter (\<lambda>c. points c > 0) cs) \<le> 6"
  shows "length (overflow_trim cs) \<le> 6"
proof (cases "length cs > 6")
  case True
  let ?p = "filter (\<lambda>c. points c > 0) cs"
  have "length (slice_to (sort_by_rank (filter (\<lambda>c. points c = 0) cs)) (6 - int (length ?p)))
          \<le> nat (6 - int (length ?p))"
    using assms by (intro slice_to_length) simp
  then show ?thesis using True assms by (simp add: overflow_trim_def Let_def)
next
  case False
  then show ?thesis by (simp add: overflow_trim_def)
qed

lemma overflow_trim_long:
  assumes "6 < length (filter (\<lambda>c. points c > 0) cs)"
  shows "6 < length (overflow_trim cs)"
proof -
  have "length (filter (\<lambda>c. points c > 0) cs) \<le> length cs" by simp
  with assms have "6 < length cs" by linarith
  then show ?thesis using assms by (simp add: overflow_trim_def Let_def)
qed

lemma overflow_trim_keeps_points:
  "mset (filter (\<lambda>c. points c > 0) cs) \<subseteq># mset (overflow_trim cs)"
  by (simp add: overflow_trim_def Let_def)

lemma pad_bidder_append:
  "\<exists>k. pad_bidder b cs saved = cs @ take k saved \<and> k \<le> 6 - length cs"
proof (cases "b \<and> length cs < 6")
  case True
  then have "pad_bidder b cs saved = cs @ take (6 - length cs) saved"
    by (simp add: pad_bidder_def slice_to_def nat_diff_distrib')
  then show ?thesis by blast
next
  case False
  then have "pad_bidder b cs saved = cs @ take 0 saved"
    by (auto simp: pad_bidder_def)
  then show ?thesis by blast
qed

lemma pad_bidder_length: "length (pad_bidder b cs saved) \<le> max 6 (length cs)"
proof -
  obtain k where "pad_bidder b cs saved = cs @ take k saved" "k \<le> 6 - length cs"
    using pad_bidder_append by blast
  then show ?thesis by simp
qed

lemma pad_bidder_long: "6 < length cs \<Longrightarrow> pad_bidder b cs saved = cs"
  by (simp add: pad_bidder_def)

lemma pad_bidder_keeps: "mset cs \<subseteq># mset (pad_bidder b cs saved)"
  by (simp add: pad_bidder_def)

lemma hand_set_trump_known:
  "\<forall>c\<in>set cards. known c \<Longrightarrow> \<exists>cs. hand_set_trump cards so = Inr cs"
proof (induction cards)
  case Nil
  then show ?case by simp
next
  case (Cons c cards)
  then obtain cs where "hand_set_trump cards so = Inr cs" by auto
  moreover obtain c' where "set_trump c so = Inr c'"
    using Cons.prems set_trump_known by (meson list.set_intros(1))
  ultimately show ?case by simp
qed

lemma card_reference_points_nonneg: "card_reference k = Some (r, p, f) \<Longrightarrow> 0 \<le> p"
  by (auto simp: card_reference_def split: if_splits)

lemma set_trump_points_nonneg: "set_trump c so = Inr c' \<Longrightarrow> 0 \<le> points c'"
  by (auto simp: set_trump_def Let_def split: option.splits prod.splits
      dest: card_reference_points_nonneg)

lemma hand_set_trump_points_nonneg:
  "hand_set_trump cards so = Inr cs \<Longrightarrow> \<forall>c\<in>set cs. 0 \<le> points c"
proof (induction cards arbitrary: cs)
  case Nil
  then show ?case by simp
next
  case (Cons c cards)
  then show ?case
    by (auto split: sum.splits dest: set_trump_points_nonneg)
qed

lemma zero_points_filter:
  assumes "\<forall>c\<in>set xs. 0 \<le> points c"
  shows "filter (\<lambda>c. \<not> points c > 0) xs = filter (\<lambda>c. points c = 0) xs"
  using assms by (intro filter_cong) auto

subsection \<open>The sample hands\<close>

lemmas sample_card_defs =
  ace_of_spades_def king_of_spades_def nine_of_spades_def four_of_spades_def
  three_of_spades_def two_of_spades_def jack_of_clubs_def king_of_hearts_def
  four_of_hearts_def big_joker_def little_joker_def jack_of_spades_def

lemmas card_eval_defs =
  set_trump_def get_trump_symbol_def is_trump_def card_reference_def base_symbol_def
  off_pairs_def Let_def

lemma sample_cards_constructed:
  "Card ''Ace'' ''Spades'' = Inr ace_of_spades"
  "Card ''K'' ''Spades'' = Inr king_of_spades"
  "Card ''9'' ''Spades'' = Inr nine_of_spades"
  "Card ''4'' ''Spades'' = Inr four_of_spades"
  "Card ''3'' ''Spades'' = Inr three_of_spades"
  "Card ''2'' ''Spades'' = Inr two_of_spades"
  "Card ''J'' ''Clubs'' = Inr jack_of_clubs"
  "Card ''King'' ''Hearts'' = Inr king_of_hearts"
  "Card ''4'' ''Hearts'' = Inr four_of_hearts"
  "Card ''Big'' ''Joker'' = Inr big_joker"
  "Card ''L'' ''Joker'' = Inr little_joker"
  by (simp_all add: Card_def card_reference_def suit_to_symbol_def base_symbol_def Let_def
      sample_card_defs)

lemma sample_hand_known: "\<forall>c\<in>set sample_hand. known c"
  by (simp add: sample_hand_def known_def sample_card_defs card_reference_def base_symbol_def)

lemma misdeal_hand_known: "\<forall>c\<in>set misdeal_hand. known c"
  by (simp add: misdeal_hand_def known_def sample_card_defs card_reference_def base_symbol_def)

lemma sample_hand_set_trump:
  "hand_set_trump sample_hand (Some ''Spades'') = Inr sample_hand_spades"
  by (simp add: sample_hand_def sample_hand_spades_def sample_card_defs card_eval_defs)

lemma misdeal_hand_set_trump:
  "hand_set_trump misdeal_hand (Some ''Spades'') = Inr misdeal_hand_spades"
  by (simp add: misdeal_hand_def misdeal_hand_spades_def sample_card_defs card_eval_defs)

lemma sample_hand_counts:
  "length (filter (\<lambda>c. is_trump c (Some ''Spades'') \<and> points c > 0) sample_hand_spades) = 4"
  "length (filter (\<lambda>c. is_trump c (Some ''Spades'') \<and> points c = 0) sample_hand_spades) = 3"
  by (simp_all add: sample_hand_spades_def sample_card_defs is_trump_def base_symbol_def
      off_pairs_def)

lemma misdeal_hand_count:
  "length (filter (\<lambda>c. is_trump c (Some ''Spades'') \<and> points c > 0) misdeal_hand_spades) = 7"
  by (simp add: misdeal_hand_spades_def sample_card_defs is_trump_def base_symbol_def
      off_pairs_def)

lemma sample_hand_discard:
  "discard_non_trumps sample_hand (Some ''Spades'') False =
     Inr [ace_of_spades\<lparr>points := 1, trump_suit := Some ''Spades''\<rparr>,
          king_of_spades\<lparr>trump_suit := Some ''Spades''\<rparr>,
          jack_of_spades\<lparr>points := 1, trump_suit := Some ''Spades''\<rparr>,
          jack_of_clubs\<lparr>symbol := ''X'', rank := 13, points := 1, trump_suit := Some ''Spades''\<rparr>,
          nine_of_spades\<lparr>trump_suit := Some ''Spades''\<rparr>,
          three_of_spades\<lparr>points := 3, trump_suit := Some ''Spades''\<rparr>]"
  by (simp add: discard_non_trumps_def sample_hand_set_trump)
     (simp add: sample_hand_spades_def sample_card_defs is_trump_def base_symbol_def
      off_pairs_def overflow_trim_def pad_bidder_def sort_by_rank_def slice_to_def Let_def)

lemma sample_hand_bidder_hearts:
  "discard_non_trumps sample_hand (Some ''Hearts'') True =
     Inr [king_of_hearts\<lparr>trump_suit := Some ''Hearts''\<rparr>,
          four_of_hearts\<lparr>trump_suit := Some ''Hearts''\<rparr>,
          nine_of_spades\<lparr>symbol := ''N'', rank := 0, trump_suit := Some ''Hearts''\<rparr>,
          ace_of_spades\<lparr>symbol := ''N'', rank := 0, trump_suit := Some ''Hearts''\<rparr>,
          jack_of_clubs\<lparr>symbol := ''N'', rank := 0, trump_suit := Some ''Hearts''\<rparr>,
          four_of_spades\<lparr>symbol := ''N'', rank := 0, trump_suit := Some ''Hearts''\<rparr>]"
  by (simp add: discard_non_trumps_def sample_hand_def sample_card_defs card_eval_defs
      overflow_trim_def pad_bidder_def sort_by_rank_def slice_to_def)

subsection \<open>The size ceiling\<close>

text \<open>
  Claim C9.  Whenever \<open>discard_non_trumps\<close> returns without raising, for any hand, any suit
  and either value of \<open>is_bidder\<close>, the hand holds at most 6 cards.  The padding step
  appends a prefix of the saved non-trump cards, in their order, of at most 6 minus the
  current hand size cards, so it never takes a hand of at most 6 cards above 6.
\<close>

theorem size_ceiling:
  "(discard_non_trumps cards so is_bidder = Inr r \<longrightarrow> length r \<le> 6) \<and>
   (\<exists>k. pad_bidder is_bidder cs saved = cs @ take k saved \<and> k \<le> 6 - length cs) \<and>
   (length cs \<le> 6 \<longrightarrow> length (pad_bidder is_bidder cs saved) \<le> 6)"
proof -
  have 1: "discard_non_trumps cards so is_bidder = Inr r \<longrightarrow> length r \<le> 6"
    by (auto simp: discard_non_trumps_def Let_def split: sum.splits if_splits)
  have 3: "length cs \<le> 6 \<longrightarrow> length (pad_bidder is_bidder cs saved) \<le> 6"
    using pad_bidder_length[of is_bidder cs saved] by auto
  show ?thesis using 1 pad_bidder_append 3 by blast
qed

theorem size_ceiling_witness:
  "discard_non_trumps sample_hand (Some ''Hearts'') True =
     Inr [king_of_hearts\<lparr>trump_suit := Some ''Hearts''\<rparr>,
          four_of_hearts\<lparr>trump_suit := Some ''Hearts''\<rparr>,
          nine_of_spades\<lparr>symbol := ''N'', rank := 0, trump_suit := Some ''Hearts''\<rparr>,
          ace_of_spades\<lparr>symbol := ''N'', rank := 0, trump_suit := Some ''Hearts''\<rparr>,
          jack_of_clubs\<lparr>symbol := ''N'', rank := 0, trump_suit := Some ''Hearts''\<rparr>,
          four_of_spades\<lparr>symbol := ''N'', rank := 0, trump_suit := Some ''Hearts''\<rparr>] \<and>
   length [king_of_hearts\<lparr>trump_suit := Some ''Hearts''\<rparr>,
          four_of_hearts\<lparr>trump_suit := Some ''Hearts''\<rparr>,
          nine_of_spades\<lparr>symbol := ''N'', rank := 0, trump_suit := Some ''Hearts''\<rparr>,
          ace_of_spades\<lparr>symbol := ''N'', rank := 0, trump_suit := Some ''Hearts''\<rparr>,
          jack_of_clubs\<lparr>symbol := ''N'', rank := 0, trump_suit := Some ''Hearts''\<rparr>,
          four_of_spades\<lparr>symbol := ''N'', rank := 0, trump_suit := Some ''Hearts''\<rparr>] \<le> 6 \<and>
   length ([] :: card list) \<le> 6 \<and> length (pad_bidder True [] sample_hand) \<le> 6"
  using size_ceiling[of sample_hand "Some ''Hearts''" True _ "[]" sample_hand]
    sample_hand_bidder_hearts
  by simp

subsection \<open>Misdeal\<close>

text \<open>
  Claim C3.  For a hand of constructed cards, \<open>discard_non_trumps(suit, is_bidder)\<close>
  raises the misdeal error exactly when the hand holds more than 6 cards that are trump
  for the suit and carry points; otherwise it returns normally and every point trump of
  the hand is still in the hand afterwards.
\<close>

theorem misdeal_iff:
  assumes "\<forall>c\<in>set cards. known c"
  shows "\<exists>cs. hand_set_trump cards so = Inr cs \<and>
           (if 6 < length (filter (\<lambda>c. is_trump c so \<and> points c > 0) cs)
            then discard_non_trumps cards so is_bidder = Inl Misdeal
            else \<exists>r. discard_non_trumps cards so is_bidder = Inr r \<and>
                     mset (filter (\<lambda>c. is_trump c so \<and> points c > 0) cs) \<subseteq># mset r)"
proof -
  from hand_set_trump_known[OF assms] obtain cs where cs: "hand_set_trump cards so = Inr cs"
    by blast
  define T where "T = filter (\<lambda>c. is_trump c so) cs"
  define saved where "saved = (if is_bidder then filter (\<lambda>c. \<not> is_trump c so) cs else [])"
  define fin where "fin = sort_by_rank (pad_bidder is_bidder (overflow_trim T) saved)"
  have P: "filter (\<lambda>c. is_trump c so \<and> points c > 0) cs = filter (\<lambda>c. points c > 0) T"
    by (simp add: T_def conj_commute)
  have d: "discard_non_trumps cards so is_bidder = (if length fin > 6 then Inl Misdeal else Inr fin)"
    by (simp add: discard_non_trumps_def cs Let_def T_def saved_def fin_def)
  show ?thesis
  proof (cases "6 < length (filter (\<lambda>c. points c > 0) T)")
    case True
    then have "6 < length (overflow_trim T)" by (rule overflow_trim_long)
    then have "6 < length fin"
      by (simp add: fin_def length_sort_by_rank pad_bidder_long)
    then show ?thesis using cs d P True by simp
  next
    case False
    then have "length (overflow_trim T) \<le> 6" by (intro overflow_trim_short) simp
    then have len: "length fin \<le> 6"
      using pad_bidder_length[of is_bidder "overflow_trim T" saved]
      by (simp add: fin_def length_sort_by_rank)
    have "mset (filter (\<lambda>c. points c > 0) T) \<subseteq># mset (overflow_trim T)"
      by (rule overflow_trim_keeps_points)
    also have "\<dots> \<subseteq># mset (pad_bidder is_bidder (overflow_trim T) saved)"
      by (rule pad_bidder_keeps)
    also have "\<dots> = mset fin" by (simp add: fin_def mset_sort_by_rank)
    finally have "mset (filter (\<lambda>c. points c > 0) T) \<subseteq># mset fin" .
    then show ?thesis using cs d P False len by simp
  qed
qed

theorem misdeal_iff_witness:
  "list_all known misdeal_hand \<and>
   hand_set_trump misdeal_hand (Some ''Spades'') = Inr misdeal_hand_spades \<and>
   length (filter (\<lambda>c. is_trump c (Some ''Spades'') \<and> points c > 0) misdeal_hand_spades) = 7 \<and>
   discard_non_trumps misdeal_hand (Some ''Spades'') False = Inl Misdeal"
  using misdeal_iff[OF misdeal_hand_known, of "Some ''Spades''" False]
    misdeal_hand_known misdeal_hand_set_trump misdeal_hand_count
  by (simp add: list_all_iff)

subsection \<open>Overflow\<close>

text \<open>
  Claim C8.  When the hand holds \<open>p\<close> point trumps and \<open>n\<close> pointless trumps with
  \<open>p \<le> 6 < p + n\<close> (in the claim \<open>p = 4\<close> and \<open>n = 3\<close>, beside any off cards),
  \<open>discard_non_trumps(suit, is_bidder=False)\<close> returns with exactly 6 cards in descending
  rank; only pointless trumps are dropped, so all point cards stay; no dropped card
  outranks a pointless card that stays; and the pointless cards that stay are the first
  \<open>6 - p\<close> of the pointless trumps in stable descending rank order.
\<close>

theorem overflow_keeps_highest:
  assumes cs: "hand_set_trump cards so = Inr cs"
    and p: "length (filter (\<lambda>c. is_trump c so \<and> points c > 0) cs) = p"
    and n: "length (filter (\<lambda>c. is_trump c so \<and> points c = 0) cs) = n"
    and pn: "p \<le> 6" "6 < p + n"
  shows "\<exists>r dropped.
           discard_non_trumps cards so False = Inr r \<and> length r = 6 \<and>
           sorted (map (\<lambda>c. - rank c) r) \<and>
           mset r + mset dropped = mset (filter (\<lambda>c. is_trump c so) cs) \<and>
           (\<forall>d\<in>set dropped. points d = 0 \<and> (\<forall>c\<in>set r. points c = 0 \<longrightarrow> rank d \<le> rank c)) \<and>
           filter (\<lambda>c. points c = 0) r =
             take (6 - p) (sort_by_rank (filter (\<lambda>c. is_trump c so \<and> points c = 0) cs))"
proof -
  define T where "T = filter (\<lambda>c. is_trump c so) cs"
  define P where "P = filter (\<lambda>c. points c > 0) T"
  define N where "N = filter (\<lambda>c. points c = 0) T"
  define S where "S = sort_by_rank N"
  define k where "k = 6 - p"
  define r where "r = sort_by_rank (P @ take k S)"
  have nonneg: "\<forall>c\<in>set T. 0 \<le> points c"
    using hand_set_trump_points_nonneg[OF cs] by (simp add: T_def)
  have lenP: "length P = p" using p by (simp add: P_def T_def conj_commute)
  have Neq: "N = filter (\<lambda>c. is_trump c so \<and> points c = 0) cs"
    by (simp add: N_def T_def conj_commute)
  have lenN: "length N = n" using n Neq by simp
  have N': "filter (\<lambda>c. \<not> points c > 0) T = N"
    using zero_points_filter[OF nonneg] by (simp add: N_def)
  have "length T = length P + length N"
    using sum_length_filter_compl[of "\<lambda>c. points c > 0" T] N' by (simp add: P_def)
  then have lenT: "6 < length T" using lenP lenN pn by simp
  have lenS: "length S = n" by (simp add: S_def length_sort_by_rank lenN)
  have trim: "overflow_trim T = P @ take k S"
    using lenT pn lenP
    by (simp add: overflow_trim_def Let_def P_def N_def S_def k_def slice_to_def nat_diff_distrib')
  have lenr: "length r = 6"
    using lenP lenS pn by (simp add: r_def length_sort_by_rank k_def)
  have res: "discard_non_trumps cards so False = Inr r"
    using lenr by (simp add: discard_non_trumps_def cs Let_def T_def[symmetric] trim
        pad_bidder_def r_def)
  have sorted_r: "sorted (map (\<lambda>c. - rank c) r)"
    by (simp add: r_def sorted_sort_by_rank)
  have "mset T = mset P + mset N"
    using multiset_partition[of "mset T" "\<lambda>c. points c > 0"] N'
    by (simp add: P_def flip: mset_filter)
  moreover have "mset N = mset (take k S) + mset (drop k S)"
    by (metis S_def append_take_drop_id mset_append mset_sort_by_rank)
  ultimately have ms: "mset r + mset (drop k S) = mset T"
    by (simp add: r_def mset_sort_by_rank)
  have setS: "set S = set N" by (simp add: S_def sort_by_rank_def)
  have zeroS: "\<forall>c\<in>set S. points c = 0" using setS by (simp add: N_def)
  have posP: "\<forall>c\<in>set P. points c > 0" by (simp add: P_def)
  have "sorted (map (\<lambda>c. - rank c) (take k S @ drop k S))"
    by (simp add: S_def sorted_sort_by_rank)
  then have dom: "\<forall>x\<in>set (take k S). \<forall>y\<in>set (drop k S). rank y \<le> rank x"
    unfolding map_append sorted_append by auto
  have setr: "set r = set P \<union> set (take k S)"
    by (simp add: r_def sort_by_rank_def)
  have dropped: "\<forall>d\<in>set (drop k S). points d = 0 \<and> (\<forall>c\<in>set r. points c = 0 \<longrightarrow> rank d \<le> rank c)"
  proof (intro ballI conjI impI)
    fix d assume d: "d \<in> set (drop k S)"
    then show "points d = 0" using zeroS by (meson in_set_dropD)
    fix c assume "c \<in> set r" "points c = 0"
    then have "c \<in> set (take k S)" using setr posP by auto
    then show "rank d \<le> rank c" using dom d by blast
  qed
  have "filter (\<lambda>c. points c = 0) (P @ take k S) = take k S"
  proof -
    have "filter (\<lambda>c. points c = 0) P = []" using posP by (auto simp: filter_empty_conv)
    moreover have "filter (\<lambda>c. points c = 0) (take k S) = take k S"
      using zeroS by (auto simp: filter_id_conv dest: in_set_takeD)
    ultimately show ?thesis by simp
  qed
  then have "filter (\<lambda>c. points c = 0) r = sort_by_rank (take k S)"
    by (simp add: r_def filter_sort_by_rank)
  also have "\<dots> = take k S"
  proof -
    have "sorted (map (\<lambda>c. - rank c) S)" by (simp add: S_def sorted_sort_by_rank)
    then have "sorted (take k (map (\<lambda>c. - rank c) S))" by (rule sorted_wrt_take)
    then have "sorted (map (\<lambda>c. - rank c) (take k S))" by (simp add: take_map)
    then show ?thesis unfolding sort_by_rank_def by (rule sort_key_id_if_sorted)
  qed
  finally have zr: "filter (\<lambda>c. points c = 0) r = take (6 - p) (sort_by_rank (filter (\<lambda>c. is_trump c so \<and> points c = 0) cs))"
    by (simp add: k_def S_def Neq)
  show ?thesis
    using res lenr sorted_r ms dropped zr unfolding T_def by blast
qed

theorem overflow_keeps_highest_witness:
  "hand_set_trump sample_hand (Some ''Spades'') = Inr sample_hand_spades \<and>
   length (filter (\<lambda>c. is_trump c (Some ''Spades'') \<and> points c > 0) sample_hand_spades) = 4 \<and>
   length (filter (\<lambda>c. is_trump c (Some ''Spades'') \<and> points c = 0) sample_hand_spades) = 3 \<and>
   discard_non_trumps sample_hand (Some ''Spades'') False =
     Inr [ace_of_spades\<lparr>points := 1, trump_suit := Some ''Spades''\<rparr>,
          king_of_spades\<lparr>trump_suit := Some ''Spades''\<rparr>,
          jack_of_spades\<lparr>points := 1, trump_suit := Some ''Spades''\<rparr>,
          jack_of_clubs\<lparr>symbol := ''X'', rank := 13, points := 1, trump_suit := Some ''Spades''\<rparr>,
          nine_of_spades\<lparr>trump_suit := Some ''Spades''\<rparr>,
          three_of_spades\<lparr>points := 3, trump_suit := Some ''Spades''\<rparr>] \<and>
   (\<exists>r dropped.
      discard_non_trumps sample_hand (Some ''Spades'') False = Inr r \<and> length r = 6 \<and>
      sorted (map (\<lambda>c. - rank c) r) \<and>
      mset r + mset dropped = mset (filter (\<lambda>c. is_trump c (Some ''Spades'')) sample_hand_spades) \<and>
      filter (\<lambda>c. points c = 0) r =
        take (6 - 4) (sort_by_rank
          (filter (\<lambda>c. is_trump c (Some ''Spades'') \<and> points c = 0) sample_hand_spades)))"
proof -
  have "(4::nat) \<le> 6" "6 < (4::nat) + 3" by simp_all
  from overflow_keeps_highest[OF sample_hand_set_trump sample_hand_counts this]
  show ?thesis
    using sample_hand_set_trump sample_hand_counts sample_hand_discard by blast
qed

section \<open>Properties of bidding\<close>

text \<open>
  Claim C4.  In the final steps of \<open>default_bid_strategy\<close> a computed value of 4.5 with
  current bid 0 gives the bid 0 (a pass), 6.8 with current bid 5 gives 6 (the current bid
  plus one), and 7.9 with current bid 0 gives 6 (no opening bid of 7).
\<close>

theorem final_bid_examples:
  "final_bid 4.5 0 = 0 \<and> final_bid 6.8 5 = 6 \<and> final_bid 7.9 0 = 6"
  by (simp add: final_bid_def py_int_def Let_def)

lemmas bid_eval_defs =
  default_bid_strategy_def suit_bid_def personality_value_def final_bid_def py_int_def
  round2_def is_partner_def default_bid_strength_def suit_of_def strength_of_def

text \<open>
  Claim C1, evaluated where the code departs from it.  The loop replaces an incumbent
  whose strength is zero by whatever suit comes next.  With the Four of Spades alone in
  hand and a table that gives rank 4 the strength 0 and rank 0 the strength -0.1,
  Spades scores 0 and the three other suits score -0.1, yet the recorded suit is Hearts.
  With an empty hand and the default table every suit scores 0, and the recorded suit is
  Diamonds, the last suit, not Spades, the first.
\<close>

theorem zero_incumbent_replaced:
  "strength_of (suit_bid (bid_strength tuned_player) (hand tuned_player) ''Spades'') = Inr 0 \<and>
   strength_of (suit_bid (bid_strength tuned_player) (hand tuned_player) ''Hearts'') = Inr (- 0.1) \<and>
   strength_of (suit_bid (bid_strength tuned_player) (hand tuned_player) ''Clubs'') = Inr (- 0.1) \<and>
   strength_of (suit_bid (bid_strength tuned_player) (hand tuned_player) ''Diamonds'') = Inr (- 0.1) \<and>
   suit_of (default_bid_strategy tuned_player 0 None) = Inr (Some ''Hearts'') \<and>
   strength_of (suit_bid (bid_strength new_player) (hand new_player) ''Spades'') = Inr 0 \<and>
   strength_of (suit_bid (bid_strength new_player) (hand new_player) ''Diamonds'') = Inr 0 \<and>
   suit_of (default_bid_strategy new_player 0 None) = Inr (Some ''Diamonds'')"
  by (simp add: tuned_player_def new_player_def bid_eval_defs sample_card_defs card_eval_defs)

section \<open>Properties of card play\<close>

text \<open>
  Each strategy is a function of the player and the game state whose value is the card
  played, or an exception: the source functions build new lists with comprehensions and
  call \<open>min\<close>, \<open>max\<close>, \<open>random.choice\<close> and \<open>is_trump\<close> only, and assign to no attribute of
  the player, of the hand or of a card, so the hand after the call is the hand before it.
\<close>

lemma foldl_pick_mem:
  "foldl (\<lambda>b a. if P a b then a else b) x xs \<in> insert x (set xs)"
  by (induction xs arbitrary: x) (auto split: if_splits)

lemma min_by_returns:
  assumes "xs \<noteq> []" "set xs \<subseteq> set h"
  shows "returns_card_of h (min_by f xs)"
proof -
  from assms(1) obtain y ys where xs: "xs = y # ys" by (cases xs) auto
  have "foldl (\<lambda>b a. if f a < f b then a else b) y ys \<in> set xs"
    using foldl_pick_mem[of "\<lambda>a b. f a < f b" y ys] xs by simp
  then show ?thesis using assms(2) xs by (auto simp: returns_card_of_def)
qed

lemma max_by_returns:
  assumes "xs \<noteq> []" "set xs \<subseteq> set h"
  shows "returns_card_of h (max_by f xs)"
proof -
  from assms(1) obtain y ys where xs: "xs = y # ys" by (cases xs) auto
  have "foldl (\<lambda>b a. if f a > f b then a else b) y ys \<in> set xs"
    using foldl_pick_mem[of "\<lambda>a b. f a > f b" y ys] xs by simp
  then show ?thesis using assms(2) xs by (auto simp: returns_card_of_def)
qed

lemma random_choice_returns:
  assumes "xs \<noteq> []" "set xs \<subseteq> set h"
  shows "returns_card_of h (random_choice r xs)"
proof -
  have "xs ! (r mod length xs) \<in> set xs" using assms(1) by simp
  then show ?thesis using assms by (auto simp: random_choice_def returns_card_of_def)
qed

lemma head_returns:
  assumes "xs = c # cs" "set xs \<subseteq> set h"
  shows "returns_card_of h (Inr c)"
  using assms by (auto simp: returns_card_of_def)

lemma trump_cards_subset: "set (trump_cards_of p gs) \<subseteq> set (hand p)"
  by (auto simp: trump_cards_of_def)

lemma filter_trump_cards_subset: "set (filter P (trump_cards_of p gs)) \<subseteq> set (hand p)"
  using trump_cards_subset[of p gs] by auto

lemma filter_hand_subset: "set (filter P (hand p)) \<subseteq> set (hand p)"
  by auto

lemma play_random_returns:
  assumes "hand p \<noteq> []"
  shows "returns_card_of (hand p) (play_random r p gs)"
proof (cases "trumps_led gs \<and> trump_cards_of p gs \<noteq> []")
  case True
  then have "play_random r p gs = random_choice r (trump_cards_of p gs)"
    by (simp add: play_random_def)
  moreover have "trump_cards_of p gs \<noteq> []" using True by simp
  ultimately show ?thesis by (simp add: random_choice_returns[OF _ trump_cards_subset])
next
  case False
  then have "play_random r p gs = random_choice r (hand p)"
    by (auto simp: play_random_def)
  then show ?thesis using assms by (simp add: random_choice_returns)
qed

lemma play_highest_returns:
  "hand p \<noteq> [] \<Longrightarrow> returns_card_of (hand p) (play_highest p gs)"
  unfolding play_highest_def by (rule max_by_returns) simp_all

lemma play_lowest_returns:
  assumes "hand p \<noteq> []"
  shows "returns_card_of (hand p) (play_lowest p gs)"
proof (cases "trumps_led gs \<and> trump_cards_of p gs \<noteq> []")
  case True
  then have "play_lowest p gs = min_by rank (trump_cards_of p gs)"
    by (simp add: play_lowest_def)
  moreover have "trump_cards_of p gs \<noteq> []" using True by simp
  ultimately show ?thesis by (simp add: min_by_returns[OF _ trump_cards_subset])
next
  case False
  then have "play_lowest p gs = min_by rank (hand p)"
    by (auto simp: play_lowest_def)
  then show ?thesis using assms by (simp add: min_by_returns)
qed

lemma play_highest_no_point_returns:
  assumes "hand p \<noteq> []"
  shows "returns_card_of (hand p) (play_highest_no_point p gs)"
proof (cases "filter (\<lambda>c. points c = 0) (trump_cards_of p gs) = []")
  case True
  then have "play_highest_no_point p gs = max_by rank (hand p)"
    by (simp add: play_highest_no_point_def)
  then show ?thesis using assms by (simp add: max_by_returns)
next
  case False
  then have "play_highest_no_point p gs =
               max_by rank (filter (\<lambda>c. points c = 0) (trump_cards_of p gs))"
    by (simp add: play_highest_no_point_def)
  then show ?thesis by (simp add: max_by_returns[OF False filter_trump_cards_subset])
qed

lemma highest_points_fallback_returns:
  assumes "hand p \<noteq> []"
  shows "returns_card_of (hand p) (highest_points_fallback p gs)"
proof (cases "trumps_led gs \<and> trump_cards_of p gs \<noteq> []")
  case True
  then have "highest_points_fallback p gs =
               min_by (\<lambda>c. (points c, rank c)) (trump_cards_of p gs)"
    by (simp add: highest_points_fallback_def)
  moreover have "trump_cards_of p gs \<noteq> []" using True by simp
  ultimately show ?thesis by (simp add: min_by_returns[OF _ trump_cards_subset])
next
  case False
  then have "highest_points_fallback p gs = min_by rank (hand p)"
    by (auto simp: highest_points_fallback_def)
  then show ?thesis using assms by (simp add: min_by_returns)
qed

lemma max_by_nonempty: "xs \<noteq> [] \<Longrightarrow> \<exists>m. max_by f xs = Inr m"
  by (cases xs) simp_all

lemma highest_points_inner:
  assumes sub: "set PC \<subseteq> set h" and fb: "returns_card_of h fb"
  shows "returns_card_of h
     (let highest_point_cards =
            filter (\<lambda>c. rank c \<noteq> 17) (filter (\<lambda>c. points c = m) PC);
          catchable_cards = filter (\<lambda>c. rank c \<noteq> 2) highest_point_cards
      in if catchable_cards \<noteq> [] then min_by rank catchable_cards
         else if highest_point_cards \<noteq> [] then min_by rank highest_point_cards
         else fb)"
proof -
  define HP where "HP = filter (\<lambda>c. rank c \<noteq> 17) (filter (\<lambda>c. points c = m) PC)"
  define CC where "CC = filter (\<lambda>c. rank c \<noteq> 2) HP"
  have subHP: "set HP \<subseteq> set h" using sub by (auto simp: HP_def)
  have subCC: "set CC \<subseteq> set h" using subHP by (auto simp: CC_def)
  have "returns_card_of h
          (if CC \<noteq> [] then min_by rank CC else if HP \<noteq> [] then min_by rank HP else fb)"
    using fb by (simp add: min_by_returns[OF _ subCC] min_by_returns[OF _ subHP])
  then show ?thesis unfolding Let_def CC_def HP_def .
qed

lemma play_highest_points_returns:
  assumes "hand p \<noteq> []"
  shows "returns_card_of (hand p) (play_highest_points p gs)"
proof (cases "filter (\<lambda>c. points c > 0) (hand p) = []")
  case True
  then have "play_highest_points p gs = highest_points_fallback p gs"
    by (simp add: play_highest_points_def)
  then show ?thesis using highest_points_fallback_returns[OF assms] by simp
next
  case False
  then have "map points (filter (\<lambda>c. points c > 0) (hand p)) \<noteq> []" by simp
  then obtain m where m: "max_by id (map points (filter (\<lambda>c. points c > 0) (hand p))) = Inr m"
    using max_by_nonempty[of "map points (filter (\<lambda>c. points c > 0) (hand p))" id] by blast
  have "play_highest_points p gs =
     (let highest_point_cards =
            filter (\<lambda>c. rank c \<noteq> 17)
              (filter (\<lambda>c. points c = m) (filter (\<lambda>c. points c > 0) (hand p)));
          catchable_cards = filter (\<lambda>c. rank c \<noteq> 2) highest_point_cards
      in if catchable_cards \<noteq> [] then min_by rank catchable_cards
         else if highest_point_cards \<noteq> [] then min_by rank highest_point_cards
         else highest_points_fallback p gs)"
    unfolding play_highest_points_def using False m
    by (simp only: Let_def if_True if_False sum.case not_False_eq_True)
  then show ?thesis
    using highest_points_inner[OF filter_hand_subset highest_points_fallback_returns[OF assms]]
    by simp
qed

lemma play_lowest_no_point_returns:
  assumes "hand p \<noteq> []"
  shows "returns_card_of (hand p) (play_lowest_no_point p gs)"
proof (cases "filter (\<lambda>c. rank c = 2) (trump_cards_of p gs)")
  case (Cons two rest)
  then have "play_lowest_no_point p gs = Inr two"
    by (simp add: play_lowest_no_point_def Let_def)
  then show ?thesis using head_returns[OF Cons filter_trump_cards_subset] by simp
next
  case Nil
  show ?thesis
  proof (cases "filter (\<lambda>c. points c = 0) (trump_cards_of p gs) = []")
    case False
    then have "play_lowest_no_point p gs =
                 min_by rank (filter (\<lambda>c. points c = 0) (trump_cards_of p gs))"
      by (simp add: play_lowest_no_point_def Let_def Nil)
    then show ?thesis by (simp add: min_by_returns[OF False filter_trump_cards_subset])
  next
    case noZero: True
    show ?thesis
    proof (cases "trump_cards_of p gs = []")
      case True
      then have "play_lowest_no_point p gs = min_by rank (hand p)"
        by (simp add: play_lowest_no_point_def Let_def)
      then show ?thesis using assms by (simp add: min_by_returns)
    next
      case hasT: False
      show ?thesis
      proof (cases "filter (\<lambda>c. points c = 1) (trump_cards_of p gs) = []")
        case True
        then have "play_lowest_no_point p gs = min_by points (trump_cards_of p gs)"
          by (simp add: play_lowest_no_point_def Let_def Nil noZero hasT)
        then show ?thesis by (simp add: min_by_returns[OF hasT trump_cards_subset])
      next
        case False
        then have "play_lowest_no_point p gs =
                     min_by rank (filter (\<lambda>c. points c = 1) (trump_cards_of p gs))"
          by (simp add: play_lowest_no_point_def Let_def Nil noZero hasT)
        then show ?thesis by (simp add: min_by_returns[OF False filter_trump_cards_subset])
      qed
    qed
  qed
qed

lemma play_just_higher_returns:
  assumes "hand p \<noteq> []"
  shows "returns_card_of (hand p) (play_just_higher p gs)"
proof (cases "filter (\<lambda>c. rank c > highest_played_rank gs \<and> rank c \<notin> set [2, 3]) (hand p) = []")
  case True
  then have "play_just_higher p gs = play_lowest_no_point p gs"
    by (simp add: play_just_higher_def Let_def)
  then show ?thesis using play_lowest_no_point_returns[OF assms] by simp
next
  case False
  then have "play_just_higher p gs =
     min_by rank (filter (\<lambda>c. rank c > highest_played_rank gs \<and> rank c \<notin> set [2, 3]) (hand p))"
    by (simp add: play_just_higher_def Let_def)
  then show ?thesis by (simp only: min_by_returns[OF False filter_hand_subset])
qed

lemma play_off_returns:
  assumes "hand p \<noteq> []"
  shows "returns_card_of (hand p) (play_off p gs)"
proof (cases "if trumps_led gs then [] else filter (\<lambda>c. rank c < 2) (hand p)")
  case (Cons off rest)
  then have "play_off p gs = Inr off"
    by (simp add: play_off_def Let_def)
  moreover have "filter (\<lambda>c. rank c < 2) (hand p) = off # rest"
    using Cons by (simp split: if_splits)
  ultimately show ?thesis using head_returns[OF _ filter_hand_subset] by simp
next
  case noOff: Nil
  show ?thesis
  proof (cases "filter (\<lambda>c. rank c = 2) (hand p)")
    case (Cons two rest)
    then have "play_off p gs = Inr two"
      by (simp add: play_off_def Let_def noOff)
    then show ?thesis using head_returns[OF Cons filter_hand_subset] by simp
  next
    case noTwo: Nil
    show ?thesis
    proof (cases "filter (\<lambda>c. points c = 0) (hand p) = []")
      case False
      then have "play_off p gs = min_by rank (filter (\<lambda>c. points c = 0) (hand p))"
        by (simp add: play_off_def Let_def noOff noTwo)
      then show ?thesis by (simp add: min_by_returns[OF False filter_hand_subset])
    next
      case noZero: True
      show ?thesis
      proof (cases "filter (\<lambda>c. points c = 1) (hand p) = []")
        case True
        then have "play_off p gs = min_by rank (hand p)"
          by (simp add: play_off_def Let_def noOff noTwo noZero)
        then show ?thesis using assms by (simp add: min_by_returns)
      next
        case False
        then have "play_off p gs = min_by rank (filter (\<lambda>c. points c = 1) (hand p))"
          by (simp add: play_off_def Let_def noOff noTwo noZero)
        then show ?thesis by (simp add: min_by_returns[OF False filter_hand_subset])
      qed
    qed
  qed
qed

lemma play_save_point_returns:
  assumes "hand p \<noteq> []"
  shows "returns_card_of (hand p) (play_save_point p gs)"
proof (cases "filter (\<lambda>c. points c = 1 \<and> rank c \<notin> set [2, 17] \<and> rank c > highest_played_rank gs)
                (hand p) = []")
  case True
  then have "play_save_point p gs = play_off p gs"
    by (simp add: play_save_point_def Let_def)
  then show ?thesis using play_off_returns[OF assms] by simp
next
  case False
  then have "play_save_point p gs =
     min_by rank (filter (\<lambda>c. points c = 1 \<and> rank c \<notin> set [2, 17] \<and>
                               rank c > highest_played_rank gs) (hand p))"
    by (simp add: play_save_point_def Let_def)
  then show ?thesis by (simp only: min_by_returns[OF False filter_hand_subset])
qed

lemma play_single_point_returns:
  assumes "hand p \<noteq> []"
  shows "returns_card_of (hand p) (play_single_point p gs)"
proof (cases "filter (\<lambda>c. points c = 1 \<and> rank c \<notin> set [2, 17]) (hand p) = []")
  case False
  then have "play_single_point p gs =
               min_by rank (filter (\<lambda>c. points c = 1 \<and> rank c \<notin> set [2, 17]) (hand p))"
    by (simp add: play_single_point_def Let_def)
  then show ?thesis by (simp only: min_by_returns[OF False filter_hand_subset])
next
  case noSingle: True
  show ?thesis
  proof (cases "filter (\<lambda>c. rank c = 2) (hand p)")
    case (Cons two rest)
    then have "play_single_point p gs = Inr two"
      using noSingle by (simp add: play_single_point_def Let_def)
    then show ?thesis using head_returns[OF Cons filter_hand_subset] by simp
  next
    case noTwo: Nil
    show ?thesis
    proof (cases "trumps_led gs \<and> filter (\<lambda>c. points c = 0) (trump_cards_of p gs) \<noteq> []")
      case True
      then have "play_single_point p gs =
                   min_by rank (filter (\<lambda>c. points c = 0) (trump_cards_of p gs))"
        using noSingle noTwo by (simp add: play_single_point_def Let_def)
      moreover have "filter (\<lambda>c. points c = 0) (trump_cards_of p gs) \<noteq> []"
        using True by simp
      ultimately show ?thesis
        by (simp add: min_by_returns[OF _ filter_trump_cards_subset])
    next
      case noZero: False
      show ?thesis
      proof (cases "trumps_led gs \<and> trump_cards_of p gs \<noteq> []")
        case True
        then have "play_single_point p gs = min_by rank (trump_cards_of p gs)"
          using noSingle noTwo noZero by (auto simp: play_single_point_def Let_def)
        moreover have "trump_cards_of p gs \<noteq> []" using True by simp
        ultimately show ?thesis by (simp add: min_by_returns[OF _ trump_cards_subset])
      next
        case False
        then have "play_single_point p gs = min_by rank (hand p)"
          using noSingle noTwo noZero by (auto simp: play_single_point_def Let_def)
        then show ?thesis using assms by (simp add: min_by_returns)
      qed
    qed
  qed
qed


text \<open>
  Claim C10.  Each of the ten play strategies (random, with any draw of the generator,
  highest, lowest, highest-no-point, highest-points, just-higher, lowest-no-point,
  single-point, save-point, off), on any non-empty hand and in any game state (trump
  suit, trumps-led flag, cards played so far), raises no exception and returns one card,
  and that card is a card of the hand.
\<close>

theorem strategies_return_card_of_hand:
  assumes "hand p \<noteq> []"
  shows "returns_card_of (hand p) (play_random r p gs) \<and>
         returns_card_of (hand p) (play_highest p gs) \<and>
         returns_card_of (hand p) (play_lowest p gs) \<and>
         returns_card_of (hand p) (play_highest_no_point p gs) \<and>
         returns_card_of (hand p) (play_highest_points p gs) \<and>
         returns_card_of (hand p) (play_just_higher p gs) \<and>
         returns_card_of (hand p) (play_lowest_no_point p gs) \<and>
         returns_card_of (hand p) (play_single_point p gs) \<and>
         returns_card_of (hand p) (play_save_point p gs) \<and>
         returns_card_of (hand p) (play_off p gs)"
  using assms
  by (intro conjI play_random_returns play_highest_returns play_lowest_returns
      play_highest_no_point_returns play_highest_points_returns play_just_higher_returns
      play_lowest_no_point_returns play_single_point_returns play_save_point_returns
      play_off_returns)

lemma sample_player_hand: "hand sample_player \<noteq> []"
  by (simp add: sample_player_def sample_hand_spades_def)

lemmas play_eval_defs =
  sample_player_def sample_state_def new_player_def sample_hand_spades_def sample_card_defs
  trump_cards_of_def is_trump_def base_symbol_def off_pairs_def highest_played_rank_def
  played_ranks_def max_default_def Let_def

lemma sample_player_plays:
  "play_highest sample_player sample_state =
     Inr (ace_of_spades\<lparr>points := 1, trump_suit := Some ''Spades''\<rparr>)"
  "play_lowest sample_player sample_state =
     Inr (three_of_spades\<lparr>points := 3, trump_suit := Some ''Spades''\<rparr>)"
  "play_just_higher sample_player sample_state =
     Inr (jack_of_clubs\<lparr>symbol := ''X'', rank := 13, points := 1, trump_suit := Some ''Spades''\<rparr>)"
  "play_off sample_player sample_state =
     Inr (four_of_hearts\<lparr>symbol := ''N'', rank := 0, trump_suit := Some ''Spades''\<rparr>)"
  by (simp_all add: play_highest_def play_lowest_def play_just_higher_def play_off_def
      play_eval_defs)

theorem strategies_return_card_of_hand_witness:
  "length (hand sample_player) = 9 \<and>
   play_highest sample_player sample_state =
     Inr (ace_of_spades\<lparr>points := 1, trump_suit := Some ''Spades''\<rparr>) \<and>
   play_lowest sample_player sample_state =
     Inr (three_of_spades\<lparr>points := 3, trump_suit := Some ''Spades''\<rparr>) \<and>
   play_just_higher sample_player sample_state =
     Inr (jack_of_clubs\<lparr>symbol := ''X'', rank := 13, points := 1, trump_suit := Some ''Spades''\<rparr>) \<and>
   play_off sample_player sample_state =
     Inr (four_of_hearts\<lparr>symbol := ''N'', rank := 0, trump_suit := Some ''Spades''\<rparr>) \<and>
   returns_card_of (hand sample_player) (play_random 7 sample_player sample_state) \<and>
   returns_card_of (hand sample_player) (play_highest sample_player sample_state) \<and>
   returns_card_of (hand sample_player) (play_lowest sample_player sample_state) \<and>
   returns_card_of (hand sample_player) (play_highest_no_point sample_player sample_state) \<and>
   returns_card_of (hand sample_player) (play_highest_points sample_player sample_state) \<and>
   returns_card_of (hand sample_player) (play_just_higher sample_player sample_state) \<and>
   returns_card_of (hand sample_player) (play_lowest_no_point sample_player sample_state) \<and>
   returns_card_of (hand sample_player) (play_single_point sample_player sample_state) \<and>
   returns_card_of (hand sample_player) (play_save_point sample_player sample_state) \<and>
   returns_card_of (hand sample_player) (play_off sample_player sample_state)"
proof -
  have len: "length (hand sample_player) = 9"
    by (simp add: sample_player_def sample_hand_spades_def)
  show ?thesis
    using strategies_return_card_of_hand[OF sample_player_hand, of 7 sample_state]
      sample_player_plays len
    by simp
qed

end
